theory Spec2Isabelle
  imports Main
begin

section \<open>Data model\<close>

text \<open>
  The functions of \<^verbatim>\<open>fastf1_race_util.py\<close> work on pandas data frames. Two frames
  matter for \<^verbatim>\<open>prepare_driver_laps\<close>: the laps of one driver and the stint table.
  A row of a lap frame is a record of the columns the repository reads or writes; a cell
  that is NaN or NaT is \<open>None\<close>.
\<close>

record lap =
  Driver :: string
  LapNumber :: int
  LapTime :: "int option"
  Compound :: string
  Position :: int
  Stint :: "int option"

text \<open>
  A lap frame is the list of its rows, in index order, and the fact whether it has the
  column \<^verbatim>\<open>Stint\<close>: the function creates that column when it is missing, and pandas
  treats a missing column and a column of NaN cells differently. The \<open>Stint\<close> field of a
  row counts only in a frame that has the column.
\<close>

record laps_frame =
  has_Stint :: bool
  rows :: "lap list"

text \<open>
  A row of \<^verbatim>\<open>stints\<close>: the columns \<^verbatim>\<open>Driver\<close>, \<^verbatim>\<open>Compound\<close> and
  \<^verbatim>\<open>StintLength\<close> (the first two are prefixed, the lap record owns the plain names).
\<close>

record stint_row =
  stint_Driver :: string
  stint_Compound :: string
  StintLength :: int

text \<open>
  The exceptions the modelled statements can raise. \<open>ValueError\<close> is what
  \<^verbatim>\<open>pd.concat\<close> raises on an empty list of frames (``No objects to concatenate'') and
  what a \<^verbatim>\<open>.loc\<close> assignment of a scalar to a new column raises on a frame without rows
  (``cannot set a frame with no defined index and a scalar''); \<open>KeyError\<close> is a missing
  column; \<open>AttributeError\<close> is the \<^verbatim>\<open>.dt\<close> accessor on a column that holds no time
  values.
\<close>

datatype error = ValueError | KeyError | AttributeError

section \<open>prepare\_driver\_laps\<close>

text \<open>
  The rows of a frame with their \<^verbatim>\<open>Stint\<close> cells as pandas reads them: the cells of a
  missing column are NaN.
\<close>

definition cell_rows :: "laps_frame \<Rightarrow> lap list" where
  "cell_rows frame =
     (if has_Stint frame then rows frame else map (\<lambda>l. l\<lparr>Stint := None\<rparr>) (rows frame))"

text \<open>
  \<^verbatim>\<open>driver_laps['Driver'] = driver\<close>: the column is written in every row.
\<close>

definition set_Driver :: "string \<Rightarrow> laps_frame \<Rightarrow> laps_frame" where
  "set_Driver driver driver_laps =
     driver_laps\<lparr>rows := map (\<lambda>l. l\<lparr>Driver := driver\<rparr>) (rows driver_laps)\<rparr>"

text \<open>
  \<^verbatim>\<open>driver_laps.loc[(LapNumber >= start_lap) & (LapNumber <= end_lap), 'Stint'] = stint_number\<close>.
  In a frame that has the column, the rows the mask selects get the stint number and every
  other row keeps its cell. In a frame without the column pandas first adds the column:
  with rows, the rows the mask selects get the stint number and every other cell is NaN;
  without rows, the assignment raises ValueError.
\<close>

definition loc_set_Stint :: "int \<Rightarrow> int \<Rightarrow> int \<Rightarrow> laps_frame \<Rightarrow> error + laps_frame" where
  "loc_set_Stint start_lap end_lap stint_number driver_laps =
     (if has_Stint driver_laps then
        Inr (driver_laps\<lparr>rows :=
               map (\<lambda>l. if LapNumber l \<ge> start_lap \<and> LapNumber l \<le> end_lap
                        then l\<lparr>Stint := Some stint_number\<rparr> else l) (rows driver_laps)\<rparr>)
      else if rows driver_laps = [] then Inl ValueError
      else
        Inr \<lparr>has_Stint = True,
             rows = map (\<lambda>l. if LapNumber l \<ge> start_lap \<and> LapNumber l \<le> end_lap
                             then l\<lparr>Stint := Some stint_number\<rparr> else l\<lparr>Stint := None\<rparr>)
                      (rows driver_laps)\<rparr>)"

text \<open>
  The loop \<^verbatim>\<open>for stint_number, stint_length in enumerate(stint_lengths, start=1)\<close>,
  with the loop variables \<open>start_lap\<close> and \<open>stint_number\<close> as arguments. An exception of
  the assignment ends the loop.
\<close>

fun assign_stints :: "int \<Rightarrow> int \<Rightarrow> int list \<Rightarrow> laps_frame \<Rightarrow> error + laps_frame" where
  "assign_stints start_lap stint_number [] driver_laps = Inr driver_laps"
| "assign_stints start_lap stint_number (stint_length # rest) driver_laps =
     (let end_lap = start_lap + stint_length - 1
      in case loc_set_Stint start_lap end_lap stint_number driver_laps of
           Inl e \<Rightarrow> Inl e
         | Inr driver_laps' \<Rightarrow>
             assign_stints (end_lap + 1) (stint_number + 1) rest driver_laps')"

text \<open>
  The pairs \<open>(start_lap, end_lap)\<close> the same loop computes, one for each stint, in the
  order of the iterations.
\<close>

fun stint_ranges :: "int \<Rightarrow> int list \<Rightarrow> (int \<times> int) list" where
  "stint_ranges start_lap [] = []"
| "stint_ranges start_lap (stint_length # rest) =
     (let end_lap = start_lap + stint_length - 1
      in (start_lap, end_lap) # stint_ranges (end_lap + 1) rest)"

text \<open>
  \<^verbatim>\<open>stints.loc[stints["Driver"] == driver]["StintLength"].tolist()\<close>: the selection
  builds a new frame and \<^verbatim>\<open>tolist\<close> a new list.
\<close>

definition stint_lengths_of :: "stint_row list \<Rightarrow> string \<Rightarrow> int list" where
  "stint_lengths_of stints driver =
     (let driver_stints = filter (\<lambda>s. stint_Driver s = driver) stints
      in map StintLength driver_stints)"

text \<open>
  \<^verbatim>\<open>pd.concat(frames, ignore_index=True)\<close>: the rows of the frames one after the
  other. The result has the column \<^verbatim>\<open>Stint\<close> when one of the frames has it, and the
  rows of a frame without it get NaN cells. An empty list of frames is an error.
\<close>

fun pd_concat :: "laps_frame list \<Rightarrow> error + laps_frame" where
  "pd_concat [] = Inl ValueError"
| "pd_concat frames =
     Inr \<lparr>has_Stint = list_ex has_Stint frames, rows = concat (map cell_rows frames)\<rparr>"

text \<open>
  The state of a call: the caller's \<^verbatim>\<open>stints\<close> frame and the local list
  \<^verbatim>\<open>driver_laps_list\<close>.
\<close>

record pdl_state =
  stints_frame :: "stint_row list"
  driver_laps_list :: "laps_frame list"

text \<open>
  One iteration of \<^verbatim>\<open>for driver in drivers\<close>: the state after it, and whether it
  raised. The argument \<open>session\<close> stands for
  \<^verbatim>\<open>session.laps.pick_drivers(driver).pick_quicklaps().reset_index(drop=True)\<close>, the
  lap source: it gives, for a driver, a new frame of that driver's laps.
\<close>

definition driver_iteration ::
  "(string \<Rightarrow> laps_frame) \<Rightarrow> string \<Rightarrow> pdl_state \<Rightarrow> pdl_state \<times> (error + unit)" where
  "driver_iteration session driver st =
     (let driver_laps = session driver;
          driver_laps = set_Driver driver driver_laps;
          stint_lengths = stint_lengths_of (stints_frame st) driver
      in case assign_stints 1 1 stint_lengths driver_laps of
           Inl e \<Rightarrow> (st, Inl e)
         | Inr driver_laps \<Rightarrow>
             (st\<lparr>driver_laps_list := driver_laps_list st @ [driver_laps]\<rparr>, Inr ()))"

text \<open>The loop over \<^verbatim>\<open>drivers\<close>; it ends at the first iteration that raises.\<close>

fun drivers_loop ::
  "(string \<Rightarrow> laps_frame) \<Rightarrow> string list \<Rightarrow> pdl_state \<Rightarrow> pdl_state \<times> (error + unit)" where
  "drivers_loop session [] st = (st, Inr ())"
| "drivers_loop session (driver # rest) st =
     (case driver_iteration session driver st of
        (st', Inl e) \<Rightarrow> (st', Inl e)
      | (st', Inr u) \<Rightarrow> drivers_loop session rest st')"

text \<open>
  The whole call: the state when it ends, and the value returned or the exception raised.
\<close>

definition prepare_driver_laps_run ::
  "(string \<Rightarrow> laps_frame) \<Rightarrow> string list \<Rightarrow> stint_row list
     \<Rightarrow> pdl_state \<times> (error + laps_frame)" where
  "prepare_driver_laps_run session drivers stints =
     (case drivers_loop session drivers \<lparr>stints_frame = stints, driver_laps_list = []\<rparr> of
        (st, Inl e) \<Rightarrow> (st, Inl e)
      | (st, Inr u) \<Rightarrow> (st, pd_concat (driver_laps_list st)))"

definition prepare_driver_laps ::
  "(string \<Rightarrow> laps_frame) \<Rightarrow> string list \<Rightarrow> stint_row list \<Rightarrow> error + laps_frame" where
  "prepare_driver_laps session drivers stints = snd (prepare_driver_laps_run session drivers stints)"

section \<open>Derived descriptions of the loops\<close>

text \<open>What the stint loop does to a single row of \<^verbatim>\<open>driver_laps\<close>.\<close>

fun assign_row :: "int \<Rightarrow> int \<Rightarrow> int list \<Rightarrow> lap \<Rightarrow> lap" where
  "assign_row start_lap stint_number [] l = l"
| "assign_row start_lap stint_number (stint_length # rest) l =
     assign_row (start_lap + stint_length - 1 + 1) (stint_number + 1) rest
       (if LapNumber l \<ge> start_lap \<and> LapNumber l \<le> start_lap + stint_length - 1
        then l\<lparr>Stint := Some stint_number\<rparr> else l)"

text \<open>The masked assignments of the stint loop, driven by a list of ranges.\<close>

fun apply_ranges :: "int \<Rightarrow> (int \<times> int) list \<Rightarrow> laps_frame \<Rightarrow> error + laps_frame" where
  "apply_ranges stint_number [] driver_laps = Inr driver_laps"
| "apply_ranges stint_number ((start_lap, end_lap) # rest) driver_laps =
     (case loc_set_Stint start_lap end_lap stint_number driver_laps of
        Inl e \<Rightarrow> Inl e
      | Inr driver_laps' \<Rightarrow> apply_ranges (stint_number + 1) rest driver_laps')"

text \<open>
  The iteration for a driver raises when the driver has a stint and the lap source gives
  a frame with no rows and no column \<^verbatim>\<open>Stint\<close>.
\<close>

definition iteration_raises :: "(string \<Rightarrow> laps_frame) \<Rightarrow> stint_row list \<Rightarrow> string \<Rightarrow> bool" where
  "iteration_raises session stints driver =
     (stint_lengths_of stints driver \<noteq> [] \<and> \<not> has_Stint (session driver)
        \<and> rows (session driver) = [])"

text \<open>
  The rows an iteration that does not raise contributes to the result, and the frame it
  appends to \<^verbatim>\<open>driver_laps_list\<close>.
\<close>

definition driver_block :: "(string \<Rightarrow> laps_frame) \<Rightarrow> stint_row list \<Rightarrow> string \<Rightarrow> lap list" where
  "driver_block session stints driver =
     map (\<lambda>src. assign_row 1 1 (stint_lengths_of stints driver) (src\<lparr>Driver := driver\<rparr>))
       (cell_rows (session driver))"

definition driver_frame :: "(string \<Rightarrow> laps_frame) \<Rightarrow> stint_row list \<Rightarrow> string \<Rightarrow> laps_frame" where
  "driver_frame session stints driver =
     (if stint_lengths_of stints driver = [] then set_Driver driver (session driver)
      else \<lparr>has_Stint = True, rows = driver_block session stints driver\<rparr>)"

section \<open>Lap sources and stint tables to run the call on\<close>

text \<open>
  The scenario of the specification: driver A with laps 1 to 5 and stints of 3 and 2 laps,
  driver B with laps 1 to 3 and one stint of 3 laps. The frames have no column
  \<^verbatim>\<open>Stint\<close>; a driver the scenario does not know has a frame without rows.
\<close>

definition scenario_laps :: "string \<Rightarrow> laps_frame" where
  "scenario_laps driver =
     (if driver = ''A'' then
        \<lparr>has_Stint = False,
         rows = map (\<lambda>n. \<lparr>Driver = ''A'', LapNumber = n, LapTime = None, Compound = ''SOFT'',
                          Position = 1, Stint = None\<rparr>) [1, 2, 3, 4, 5]\<rparr>
      else if driver = ''B'' then
        \<lparr>has_Stint = False,
         rows = map (\<lambda>n. \<lparr>Driver = ''B'', LapNumber = n, LapTime = None, Compound = ''HARD'',
                          Position = 2, Stint = None\<rparr>) [1, 2, 3]\<rparr>
      else \<lparr>has_Stint = False, rows = []\<rparr>)"

definition scenario_stints :: "stint_row list" where
  "scenario_stints =
     [\<lparr>stint_Driver = ''A'', stint_Compound = ''SOFT'', StintLength = 3\<rparr>,
      \<lparr>stint_Driver = ''A'', stint_Compound = ''MEDIUM'', StintLength = 2\<rparr>,
      \<lparr>stint_Driver = ''B'', stint_Compound = ''HARD'', StintLength = 3\<rparr>]"

text \<open>
  A lap source as a FastF1 session is: every frame comes with the column \<^verbatim>\<open>Stint\<close>
  filled in, here with the number 9 in every lap of A and B.
\<close>

definition filled_laps :: "string \<Rightarrow> laps_frame" where
  "filled_laps driver =
     (if driver = ''A'' then
        \<lparr>has_Stint = True,
         rows = map (\<lambda>n. \<lparr>Driver = ''A'', LapNumber = n, LapTime = None, Compound = ''SOFT'',
                          Position = 1, Stint = Some 9\<rparr>) [1, 2, 3, 4, 5]\<rparr>
      else if driver = ''B'' then
        \<lparr>has_Stint = True,
         rows = map (\<lambda>n. \<lparr>Driver = ''B'', LapNumber = n, LapTime = None, Compound = ''HARD'',
                          Position = 2, Stint = Some 9\<rparr>) [1, 2, 3]\<rparr>
      else \<lparr>has_Stint = True, rows = []\<rparr>)"

section \<open>plot\_lap\_time\_distributions\<close>

text \<open>
  This function asks whether its argument has a column, so here a frame is the ordered
  list of its columns, each a name and a series. A series of lap times holds durations in
  nanoseconds (\<open>None\<close> is NaT); a series of floats has the cell type \<open>'f\<close>.
\<close>

datatype 'f series =
  Timedelta "int option list" | Float64 "'f option list" | Object "string list"

type_synonym 'f dataframe = "(string \<times> 'f series) list"

definition columns :: "'f dataframe \<Rightarrow> string list" where
  "columns df = map fst df"

text \<open>\<^verbatim>\<open>df[name]\<close>, a KeyError when the frame has no such column.\<close>

definition getitem :: "'f dataframe \<Rightarrow> string \<Rightarrow> error + 'f series" where
  "getitem df name = (case map_of df name of None \<Rightarrow> Inl KeyError | Some col \<Rightarrow> Inr col)"

text \<open>
  \<^verbatim>\<open>col.dt.total_seconds()\<close>. The conversion of one duration to a float number of
  seconds belongs to pandas and is the argument \<open>total_seconds\<close>; NaT becomes NaN. The
  \<^verbatim>\<open>.dt\<close> accessor raises AttributeError on a series without time values.
\<close>

definition dt_total_seconds :: "(int \<Rightarrow> 'f) \<Rightarrow> 'f series \<Rightarrow> error + 'f series" where
  "dt_total_seconds total_seconds col =
     (case col of
        Timedelta xs \<Rightarrow> Inr (Float64 (map (map_option total_seconds) xs))
      | _ \<Rightarrow> Inl AttributeError)"

text \<open>
  \<^verbatim>\<open>df[name] = col\<close>, in place: an existing column is replaced where it stands, a
  new one goes to the end.
\<close>

fun setitem :: "'f dataframe \<Rightarrow> string \<Rightarrow> 'f series \<Rightarrow> 'f dataframe" where
  "setitem [] name col = [(name, col)]"
| "setitem ((n, c) # df) name col =
     (if n = name then (name, col) # df else (n, c) # setitem df name col)"

text \<open>
  The call returns the frame object \<^verbatim>\<open>driver_laps\<close> as the caller finds it afterwards,
  and the outcome: nothing, or an exception. The drawing calls after line 70 (violin plot,
  swarm plot, labels, \<^verbatim>\<open>plt.show\<close>) only read the frame; \<open>render\<close> stands for them and
  gives their outcome.
\<close>

definition plot_lap_time_distributions ::
  "(int \<Rightarrow> 'f) \<Rightarrow> ('f dataframe \<Rightarrow> error + unit) \<Rightarrow> 'f dataframe
     \<Rightarrow> 'f dataframe \<times> (error + unit)" where
  "plot_lap_time_distributions total_seconds render driver_laps =
     (if ''LapTime (s)'' \<notin> set (columns driver_laps) then
        (case getitem driver_laps ''LapTime'' of
           Inl e \<Rightarrow> (driver_laps, Inl e)
         | Inr lap_time \<Rightarrow>
             (case dt_total_seconds total_seconds lap_time of
                Inl e \<Rightarrow> (driver_laps, Inl e)
              | Inr seconds \<Rightarrow>
                  (let driver_laps' = setitem driver_laps ''LapTime (s)'' seconds
                   in (driver_laps', render driver_laps'))))
      else (driver_laps, render driver_laps))"

section \<open>Structure of the result\<close>

lemma cell_rows_set_Driver:
  "cell_rows (set_Driver d f) = map (\<lambda>l. l\<lparr>Driver := d\<rparr>) (cell_rows f)"
  by (simp add: cell_rows_def set_Driver_def)

lemma has_Stint_set_Driver: "has_Stint (set_Driver d f) = has_Stint f"
  by (simp add: set_Driver_def)

lemma rows_set_Driver_empty: "(rows (set_Driver d f) = []) = (rows f = [])"
  by (simp add: set_Driver_def)

lemma loc_set_Stint_eq:
  "loc_set_Stint s e n f =
     (if \<not> has_Stint f \<and> rows f = [] then Inl ValueError
      else Inr \<lparr>has_Stint = True,
                rows = map (\<lambda>l. if LapNumber l \<ge> s \<and> LapNumber l \<le> e
                                then l\<lparr>Stint := Some n\<rparr> else l) (cell_rows f)\<rparr>)"
  by (cases f) (simp add: loc_set_Stint_def cell_rows_def comp_def)

lemma assign_stints_eq:
  "assign_stints s n Ls f =
     (if Ls = [] then Inr f
      else if \<not> has_Stint f \<and> rows f = [] then Inl ValueError
      else Inr \<lparr>has_Stint = True, rows = map (assign_row s n Ls) (cell_rows f)\<rparr>)"
proof (induction Ls arbitrary: s n f)
  case Nil
  show ?case by simp
next
  case (Cons L Ls)
  show ?case
  proof (cases "\<not> has_Stint f \<and> rows f = []")
    case True
    then show ?thesis by (simp add: loc_set_Stint_eq)
  next
    case False
    let ?f1 = "\<lparr>has_Stint = True,
                rows = map (\<lambda>l. if LapNumber l \<ge> s \<and> LapNumber l \<le> s + L - 1
                                then l\<lparr>Stint := Some n\<rparr> else l) (cell_rows f)\<rparr>"
    from False have step: "assign_stints s n (L # Ls) f = assign_stints (s + L - 1 + 1) (n + 1) Ls ?f1"
      by (auto simp: loc_set_Stint_eq Let_def)
    have cells: "cell_rows ?f1 = rows ?f1" by (simp add: cell_rows_def)
    show ?thesis
    proof (cases Ls)
      case Nil
      with step False show ?thesis by auto
    next
      case (Cons L' Ls')
      with step False Cons.IH[of "s + L - 1 + 1" "n + 1" ?f1] cells show ?thesis
        by (auto simp: comp_def)
    qed
  qed
qed

lemma assign_stints_apply_ranges:
  "assign_stints s n Ls f = apply_ranges n (stint_ranges s Ls) f"
  by (induction Ls arbitrary: s n f) (simp_all add: Let_def split: sum.splits)

lemma cell_rows_driver_frame:
  "cell_rows (driver_frame session stints d) = driver_block session stints d"
  by (simp add: driver_frame_def driver_block_def cell_rows_set_Driver cell_rows_def[of "\<lparr>has_Stint = True, rows = xs\<rparr>" for xs])

lemma driver_iteration_eq:
  "driver_iteration session d st =
     (if iteration_raises session (stints_frame st) d then (st, Inl ValueError)
      else (st\<lparr>driver_laps_list :=
                  driver_laps_list st @ [driver_frame session (stints_frame st) d]\<rparr>, Inr ()))"
  by (simp add: driver_iteration_def assign_stints_eq iteration_raises_def driver_frame_def
        driver_block_def cell_rows_set_Driver has_Stint_set_Driver rows_set_Driver_empty
        comp_def Let_def)

lemma drivers_loop_stints:
  "stints_frame (fst (drivers_loop session drivers st)) = stints_frame st"
  by (induction drivers arbitrary: st) (simp_all add: driver_iteration_eq)

lemma drivers_loop_ok:
  "\<forall>d\<in>set drivers. \<not> iteration_raises session (stints_frame st) d \<Longrightarrow>
     drivers_loop session drivers st =
       (st\<lparr>driver_laps_list :=
             driver_laps_list st @ map (driver_frame session (stints_frame st)) drivers\<rparr>, Inr ())"
  by (induction drivers arbitrary: st) (simp_all add: driver_iteration_eq)

lemma drivers_loop_raises:
  "\<exists>d\<in>set drivers. iteration_raises session (stints_frame st) d \<Longrightarrow>
     snd (drivers_loop session drivers st) = Inl ValueError"
proof (induction drivers arbitrary: st)
  case Nil
  then show ?case by simp
next
  case (Cons d drivers)
  show ?case
  proof (cases "iteration_raises session (stints_frame st) d")
    case True
    then show ?thesis by (simp add: driver_iteration_eq)
  next
    case False
    let ?st' = "st\<lparr>driver_laps_list :=
                    driver_laps_list st @ [driver_frame session (stints_frame st) d]\<rparr>"
    from False Cons.prems
    have "\<exists>x\<in>set drivers. iteration_raises session (stints_frame ?st') x" by auto
    from Cons.IH[OF this] False show ?thesis by (simp add: driver_iteration_eq)
  qed
qed

lemma pd_concat_nonempty:
  "frames \<noteq> [] \<Longrightarrow>
     pd_concat frames =
       Inr \<lparr>has_Stint = list_ex has_Stint frames, rows = concat (map cell_rows frames)\<rparr>"
  by (cases frames) simp_all

lemma prepare_ok:
  assumes "drivers \<noteq> []" and "\<forall>d\<in>set drivers. \<not> iteration_raises session stints d"
  shows "prepare_driver_laps session drivers stints =
           Inr \<lparr>has_Stint = list_ex has_Stint (map (driver_frame session stints) drivers),
                rows = concat (map (driver_block session stints) drivers)\<rparr>"
proof -
  let ?st = "\<lparr>stints_frame = stints, driver_laps_list = []\<rparr>"
  from assms(2) have "\<forall>d\<in>set drivers. \<not> iteration_raises session (stints_frame ?st) d" by simp
  from drivers_loop_ok[OF this] assms(1) show ?thesis
    by (simp add: prepare_driver_laps_def prepare_driver_laps_run_def pd_concat_nonempty
          comp_def cell_rows_driver_frame)
qed

lemma prepare_empty: "prepare_driver_laps session [] stints = Inl ValueError"
  by (simp add: prepare_driver_laps_def prepare_driver_laps_run_def)

lemma prepare_raises:
  assumes "\<exists>d\<in>set drivers. iteration_raises session stints d"
  shows "prepare_driver_laps session drivers stints = Inl ValueError"
proof -
  let ?st = "\<lparr>stints_frame = stints, driver_laps_list = []\<rparr>"
  from assms have "\<exists>d\<in>set drivers. iteration_raises session (stints_frame ?st) d" by simp
  from drivers_loop_raises[OF this] show ?thesis
    by (cases "drivers_loop session drivers ?st")
       (simp add: prepare_driver_laps_def prepare_driver_laps_run_def)
qed

lemma prepare_returns_iff:
  "(\<exists>out. prepare_driver_laps session drivers stints = Inr out)
     = (drivers \<noteq> [] \<and> (\<forall>d\<in>set drivers. \<not> iteration_raises session stints d))"
proof (cases "drivers \<noteq> [] \<and> (\<forall>d\<in>set drivers. \<not> iteration_raises session stints d)")
  case True
  with prepare_ok[of drivers session stints] show ?thesis by simp
next
  case False
  then consider "drivers = []" | "\<exists>d\<in>set drivers. iteration_raises session stints d" by blast
  then have "prepare_driver_laps session drivers stints = Inl ValueError"
    by cases (simp_all add: prepare_empty prepare_raises)
  with False show ?thesis by simp
qed

lemma prepare_rows:
  assumes "prepare_driver_laps session drivers stints = Inr out"
  shows "rows out = concat (map (driver_block session stints) drivers)"
proof -
  from assms prepare_returns_iff[of session drivers stints]
  have "drivers \<noteq> []" and "\<forall>d\<in>set drivers. \<not> iteration_raises session stints d" by blast+
  from prepare_ok[OF this] assms show ?thesis by simp
qed

lemma length_driver_block:
  "length (driver_block session stints d) = length (rows (session d))"
  by (simp add: driver_block_def cell_rows_def)

section \<open>The stint loop on one row\<close>

lemma assign_row_fields:
  "assign_row s n Ls l = l\<lparr>Stint := Stint (assign_row s n Ls l)\<rparr>"
proof (induction Ls arbitrary: s n l)
  case Nil
  show ?case by simp
next
  case (Cons L Ls)
  show ?case
    using Cons.IH[of "s + L - 1 + 1" "n + 1" "l\<lparr>Stint := Some n\<rparr>"]
          Cons.IH[of "s + L - 1 + 1" "n + 1" l]
    by (cases l) (auto split: if_splits)
qed

lemma assign_row_Driver: "Driver (assign_row s n Ls l) = Driver l"
  by (subst assign_row_fields) simp

lemma assign_row_LapNumber: "LapNumber (assign_row s n Ls l) = LapNumber l"
  by (subst assign_row_fields) simp

lemma sum_list_nonneg_int: "\<forall>L\<in>set Ls. (0::int) \<le> L \<Longrightarrow> 0 \<le> sum_list Ls"
  by (induction Ls) auto

lemma assign_row_below:
  "\<forall>L\<in>set Ls. 0 \<le> L \<Longrightarrow> LapNumber l < s \<Longrightarrow> assign_row s n Ls l = l"
proof (induction Ls arbitrary: s n)
  case Nil
  show ?case by simp
next
  case (Cons L Ls)
  from Cons.prems have "0 \<le> L" and rest: "\<forall>L\<in>set Ls. 0 \<le> L" by simp_all
  with Cons.prems have "LapNumber l < s + L - 1 + 1" by simp
  from Cons.IH[OF rest this] Cons.prems(2) show ?case by simp
qed

lemma assign_row_above:
  "\<forall>L\<in>set Ls. 0 \<le> L \<Longrightarrow> s + sum_list Ls \<le> LapNumber l \<Longrightarrow> assign_row s n Ls l = l"
proof (induction Ls arbitrary: s n)
  case Nil
  show ?case by simp
next
  case (Cons L Ls)
  from Cons.prems have "0 \<le> L" and rest: "\<forall>L\<in>set Ls. 0 \<le> L" by simp_all
  from rest have "0 \<le> sum_list Ls" by (rule sum_list_nonneg_int)
  with Cons.prems(2) have out: "\<not> LapNumber l \<le> s + L - 1" by simp
  from Cons.prems(2) have "s + L - 1 + 1 + sum_list Ls \<le> LapNumber l" by simp
  from Cons.IH[OF rest this] out show ?case by simp
qed

lemma assign_row_inside:
  "\<forall>L\<in>set Ls. 0 \<le> L \<Longrightarrow> s \<le> LapNumber l \<Longrightarrow> LapNumber l < s + sum_list Ls \<Longrightarrow>
     \<exists>k<length Ls. Stint (assign_row s n Ls l) = Some (n + int k)
        \<and> s + sum_list (take k Ls) \<le> LapNumber l
        \<and> LapNumber l < s + sum_list (take (Suc k) Ls)"
proof (induction Ls arbitrary: s n l)
  case Nil
  then show ?case by simp
next
  case (Cons L Ls)
  from Cons.prems have L0: "0 \<le> L" and rest: "\<forall>L\<in>set Ls. 0 \<le> L" by simp_all
  show ?case
  proof (cases "LapNumber l \<le> s + L - 1")
    case True
    let ?l' = "l\<lparr>Stint := Some n\<rparr>"
    have "LapNumber ?l' < s + L - 1 + 1" using True by simp
    from assign_row_below[OF rest this, of "n + 1"] True Cons.prems(2)
    have "Stint (assign_row s n (L # Ls) l) = Some n" by simp
    with True Cons.prems(2) show ?thesis by (intro exI[of _ 0]) simp
  next
    case False
    then have lo: "s + L - 1 + 1 \<le> LapNumber l" by simp
    from Cons.prems(3) have hi: "LapNumber l < s + L - 1 + 1 + sum_list Ls" by simp
    from Cons.IH[OF rest lo hi, of "n + 1"] obtain k where
      k: "k < length Ls" "Stint (assign_row (s + L - 1 + 1) (n + 1) Ls l) = Some (n + 1 + int k)"
         "s + L - 1 + 1 + sum_list (take k Ls) \<le> LapNumber l"
         "LapNumber l < s + L - 1 + 1 + sum_list (take (Suc k) Ls)" by blast
    with False show ?thesis by (intro exI[of _ "Suc k"]) (simp add: algebra_simps)
  qed
qed

section \<open>The ranges of the stint loop\<close>

lemma length_stint_ranges: "length (stint_ranges s Ls) = length Ls"
  by (induction Ls arbitrary: s) (simp_all add: Let_def)

lemma stint_ranges_nth:
  "k < length Ls \<Longrightarrow>
     stint_ranges s Ls ! k = (s + sum_list (take k Ls), s + sum_list (take (Suc k) Ls) - 1)"
proof (induction Ls arbitrary: s k)
  case Nil
  then show ?case by simp
next
  case (Cons L Ls)
  show ?case
  proof (cases k)
    case 0
    then show ?thesis by (simp add: Let_def)
  next
    case (Suc m)
    with Cons.prems have "m < length Ls" by simp
    from Cons.IH[OF this, of "s + L - 1 + 1"] Suc show ?thesis
      by (simp add: Let_def algebra_simps)
  qed
qed

lemma prefix_sum_mono:
  assumes "\<forall>L\<in>set Ls. (0::int) \<le> L" and "i \<le> j"
  shows "sum_list (take i Ls) \<le> sum_list (take j Ls)"
proof -
  from assms(2) have "take j Ls = take i Ls @ take (j - i) (drop i Ls)"
    by (metis le_add_diff_inverse take_add)
  moreover have "\<forall>L\<in>set (take (j - i) (drop i Ls)). 0 \<le> L"
    using assms(1) by (meson in_set_dropD in_set_takeD)
  then have "0 \<le> sum_list (take (j - i) (drop i Ls))" by (rule sum_list_nonneg_int)
  ultimately show ?thesis by simp
qed

lemma prefix_sum_Suc:
  "k < length Ls \<Longrightarrow> sum_list (take (Suc k) Ls) = sum_list (take k Ls) + (Ls ! k :: int)"
  by (simp add: take_Suc_conv_app_nth)

lemma bracket_unique:
  assumes nonneg: "\<forall>L\<in>set Ls. (0::int) \<le> L" and k: "k < length Ls" and j: "j < length Ls"
    and lo: "1 + sum_list (take k Ls) \<le> x" and hi: "x < 1 + sum_list (take (Suc k) Ls)"
  shows "(fst (stint_ranges 1 Ls ! j) \<le> x \<and> x \<le> snd (stint_ranges 1 Ls ! j)) = (j = k)"
proof -
  have Rj: "stint_ranges 1 Ls ! j = (1 + sum_list (take j Ls), 1 + sum_list (take (Suc j) Ls) - 1)"
    by (rule stint_ranges_nth[OF j])
  consider "j = k" | "j < k" | "k < j" by linarith
  then show ?thesis
  proof cases
    case 1
    with lo hi Rj show ?thesis by simp
  next
    case 2
    then have "Suc j \<le> k" by simp
    from prefix_sum_mono[OF nonneg this] lo 2 Rj show ?thesis by simp
  next
    case 3
    then have "Suc k \<le> j" by simp
    from prefix_sum_mono[OF nonneg this] hi 3 Rj show ?thesis by simp
  qed
qed

lemma bracket_mono:
  assumes nonneg: "\<forall>L\<in>set Ls. (0::int) \<le> L"
    and "1 + sum_list (take k1 Ls) \<le> x1" and "x2 < 1 + sum_list (take (Suc k2) Ls)"
    and "x1 \<le> x2"
  shows "k1 \<le> k2"
proof (rule ccontr)
  assume "\<not> k1 \<le> k2"
  then have "Suc k2 \<le> k1" by simp
  from prefix_sum_mono[OF nonneg this] assms(2-4) show False by simp
qed

lemma row_stint:
  assumes "\<forall>L\<in>set Ls. 0 \<le> L" and "1 \<le> LapNumber l" and "LapNumber l \<le> sum_list Ls"
  shows "\<exists>k<length Ls. Stint (assign_row 1 1 Ls l) = Some (int k + 1)
           \<and> 1 + sum_list (take k Ls) \<le> LapNumber l
           \<and> LapNumber l < 1 + sum_list (take (Suc k) Ls)"
proof -
  from assms(3) have "LapNumber l < 1 + sum_list Ls" by simp
  from assign_row_inside[OF assms(1) assms(2) this, of 1] show ?thesis
    by (simp add: add.commute)
qed

section \<open>Rows of the combined frame\<close>

lemma block_rows_Driver: "l \<in> set (driver_block session stints d) \<Longrightarrow> Driver l = d"
  by (auto simp: driver_block_def assign_row_Driver)

lemma out_rows:
  assumes "l \<in> set (concat (map (driver_block session stints) drivers))" and "Driver l = d"
  shows "\<exists>src\<in>set (cell_rows (session d)).
           l = assign_row 1 1 (stint_lengths_of stints d) (src\<lparr>Driver := d\<rparr>)"
proof -
  from assms(1) obtain d' where d': "d' \<in> set drivers" "l \<in> set (driver_block session stints d')"
    by auto
  from block_rows_Driver[OF d'(2)] assms(2) have "d' = d" by simp
  with d'(2) show ?thesis by (auto simp: driver_block_def)
qed

lemma src_row_in_out:
  assumes "d \<in> set drivers" and "src \<in> set (cell_rows (session d))"
  shows "assign_row 1 1 (stint_lengths_of stints d) (src\<lparr>Driver := d\<rparr>)
           \<in> set (concat (map (driver_block session stints) drivers))"
  using assms by (auto simp: driver_block_def)

lemma length_concat_blocks:
  "length (concat (map (driver_block session stints) drivers))
     = sum_list (map (\<lambda>d. length (rows (session d))) drivers)"
  by (induction drivers) (simp_all add: length_driver_block)

lemma cell_rows_LapNumber: "map LapNumber (cell_rows f) = map LapNumber (rows f)"
  by (simp add: cell_rows_def comp_def)

lemma cell_rows_no_column: "\<not> has_Stint f \<Longrightarrow> src \<in> set (cell_rows f) \<Longrightarrow> Stint src = None"
  by (auto simp: cell_rows_def)

lemma setitem_new: "name \<notin> set (columns df) \<Longrightarrow> setitem df name col = df @ [(name, col)]"
  by (induction df) (auto simp: columns_def)

lemma cell_rows_map:
  "cell_rows f = map (\<lambda>l. if has_Stint f then l else l\<lparr>Stint := None\<rparr>) (rows f)"
  by (simp add: cell_rows_def)

lemma cell_of_row: "src \<in> set (rows f) \<Longrightarrow> \<exists>c\<in>set (cell_rows f). LapNumber c = LapNumber src"
  by (auto simp: cell_rows_def)

lemma row_of_cell: "c \<in> set (cell_rows f) \<Longrightarrow> \<exists>src\<in>set (rows f). LapNumber src = LapNumber c"
  by (auto simp: cell_rows_def split: if_splits)

section \<open>Properties of prepare\_driver\_laps\<close>

text \<open>
  C1. Take a driver of the call whose stint lengths are all positive and sum to at least
  every lap number of the driver. The call returns a frame unless the iteration of some
  driver raises. In the frame it returns, every lap of the driver shows up; every row of
  the driver with a lap number from 1 on carries the number of one stint, the only stint
  whose range \<open>[start_lap, end_lap]\<close> holds the lap number; and of two such rows, the one
  with the larger lap number never has the smaller stint number.
\<close>

theorem stint_coverage:
  fixes session :: "string \<Rightarrow> laps_frame" and stints :: "stint_row list" and d :: string
  defines "Ls \<equiv> stint_lengths_of stints d"
  defines "R \<equiv> stint_ranges 1 (stint_lengths_of stints d)"
  assumes d: "d \<in> set drivers"
    and pos: "\<forall>L\<in>set Ls. 0 < L"
    and total: "\<forall>src\<in>set (rows (session d)). LapNumber src \<le> sum_list Ls"
  shows "((\<exists>out. prepare_driver_laps session drivers stints = Inr out)
            = (\<forall>d'\<in>set drivers. \<not> iteration_raises session stints d'))
       \<and> (\<forall>out. prepare_driver_laps session drivers stints = Inr out \<longrightarrow>
             (\<forall>src\<in>set (rows (session d)).
                 \<exists>l\<in>set (rows out). Driver l = d \<and> LapNumber l = LapNumber src)
           \<and> (\<forall>l\<in>set (rows out). Driver l = d \<and> 1 \<le> LapNumber l \<longrightarrow>
                 (\<exists>k<length Ls. Stint l = Some (int k + 1)
                    \<and> (\<forall>j<length Ls.
                         (fst (R ! j) \<le> LapNumber l \<and> LapNumber l \<le> snd (R ! j)) = (j = k))))
           \<and> (\<forall>l1\<in>set (rows out). \<forall>l2\<in>set (rows out).
                 Driver l1 = d \<and> Driver l2 = d \<and> 1 \<le> LapNumber l1 \<and> LapNumber l1 \<le> LapNumber l2 \<longrightarrow>
                 (\<exists>k1 k2. Stint l1 = Some k1 \<and> Stint l2 = Some k2 \<and> k1 \<le> k2)))"
proof (intro conjI allI impI)
  from d have ne: "drivers \<noteq> []" by auto
  with prepare_returns_iff[of session drivers stints]
  show "(\<exists>out. prepare_driver_laps session drivers stints = Inr out)
            = (\<forall>d'\<in>set drivers. \<not> iteration_raises session stints d')" by simp
next
  fix out assume ret: "prepare_driver_laps session drivers stints = Inr out"
  let ?out = "concat (map (driver_block session stints) drivers)"
  from prepare_rows[OF ret] have out: "rows out = ?out" .
  from pos have nonneg: "\<forall>L\<in>set Ls. 0 \<le> L" by auto
  have bracket: "\<exists>k<length Ls. Stint l = Some (int k + 1)
           \<and> 1 + sum_list (take k Ls) \<le> LapNumber l
           \<and> LapNumber l < 1 + sum_list (take (Suc k) Ls)"
    if l: "l \<in> set ?out" "Driver l = d" "1 \<le> LapNumber l" for l
  proof -
    from out_rows[OF l(1) l(2)] obtain c where
      c: "c \<in> set (cell_rows (session d))" "l = assign_row 1 1 Ls (c\<lparr>Driver := d\<rparr>)"
      unfolding Ls_def by blast
    let ?l0 = "c\<lparr>Driver := d\<rparr>"
    from c(2) have same: "LapNumber l = LapNumber ?l0" by (simp add: assign_row_LapNumber)
    with l(3) have lo: "1 \<le> LapNumber ?l0" by simp
    from row_of_cell[OF c(1)] total have hi: "LapNumber ?l0 \<le> sum_list Ls" by auto
    from row_stint[OF nonneg lo hi] c(2) same show ?thesis by simp
  qed
  show "\<forall>src\<in>set (rows (session d)).
          \<exists>l\<in>set (rows out). Driver l = d \<and> LapNumber l = LapNumber src"
  proof
    fix src assume "src \<in> set (rows (session d))"
    from cell_of_row[OF this] obtain c where
      c: "c \<in> set (cell_rows (session d))" "LapNumber c = LapNumber src" by blast
    let ?l = "assign_row 1 1 (stint_lengths_of stints d) (c\<lparr>Driver := d\<rparr>)"
    from d c(1) have "?l \<in> set ?out" by (rule src_row_in_out)
    then have "?l \<in> set (rows out)" by (simp add: out)
    moreover from c(2) have "Driver ?l = d \<and> LapNumber ?l = LapNumber src"
      by (simp add: assign_row_Driver assign_row_LapNumber)
    ultimately show "\<exists>l\<in>set (rows out). Driver l = d \<and> LapNumber l = LapNumber src"
      by (rule bexI[rotated])
  qed
  show "\<forall>l\<in>set (rows out). Driver l = d \<and> 1 \<le> LapNumber l \<longrightarrow>
                 (\<exists>k<length Ls. Stint l = Some (int k + 1)
                    \<and> (\<forall>j<length Ls.
                         (fst (R ! j) \<le> LapNumber l \<and> LapNumber l \<le> snd (R ! j)) = (j = k)))"
  proof (intro ballI impI)
    fix l assume l: "l \<in> set (rows out)" "Driver l = d \<and> 1 \<le> LapNumber l"
    from l(1) have "l \<in> set ?out" by (simp add: out)
    from bracket[OF this] l(2) obtain k where
      k: "k < length Ls" "Stint l = Some (int k + 1)"
         "1 + sum_list (take k Ls) \<le> LapNumber l"
         "LapNumber l < 1 + sum_list (take (Suc k) Ls)" by blast
    have "\<forall>j<length Ls. (fst (R ! j) \<le> LapNumber l \<and> LapNumber l \<le> snd (R ! j)) = (j = k)"
      unfolding R_def Ls_def[symmetric]
      using bracket_unique[OF nonneg k(1) _ k(3) k(4)] by blast
    with k(1,2) show "\<exists>k<length Ls. Stint l = Some (int k + 1)
                    \<and> (\<forall>j<length Ls.
                         (fst (R ! j) \<le> LapNumber l \<and> LapNumber l \<le> snd (R ! j)) = (j = k))"
      by blast
  qed
  show "\<forall>l1\<in>set (rows out). \<forall>l2\<in>set (rows out).
                 Driver l1 = d \<and> Driver l2 = d \<and> 1 \<le> LapNumber l1 \<and> LapNumber l1 \<le> LapNumber l2 \<longrightarrow>
                 (\<exists>k1 k2. Stint l1 = Some k1 \<and> Stint l2 = Some k2 \<and> k1 \<le> k2)"
  proof (intro ballI impI)
    fix l1 l2 assume "l1 \<in> set (rows out)" and "l2 \<in> set (rows out)"
      and h: "Driver l1 = d \<and> Driver l2 = d \<and> 1 \<le> LapNumber l1 \<and> LapNumber l1 \<le> LapNumber l2"
    then have l1: "l1 \<in> set ?out" and l2: "l2 \<in> set ?out" by (simp_all add: out)
    from bracket[OF l1] h obtain k1 where
      k1: "Stint l1 = Some (int k1 + 1)" "1 + sum_list (take k1 Ls) \<le> LapNumber l1" by blast
    from h have "1 \<le> LapNumber l2" by simp
    with bracket[OF l2] h obtain k2 where
      k2: "Stint l2 = Some (int k2 + 1)" "LapNumber l2 < 1 + sum_list (take (Suc k2) Ls)" by blast
    from h have "LapNumber l1 \<le> LapNumber l2" by simp
    from bracket_mono[OF nonneg k1(2) k2(2) this] have "int k1 + 1 \<le> int k2 + 1" by simp
    with k1(1) k2(1) show "\<exists>k1 k2. Stint l1 = Some k1 \<and> Stint l2 = Some k2 \<and> k1 \<le> k2" by blast
  qed
qed

text \<open>The scenario's driver A: stints of 3 and 2 laps for the laps 1 to 5.\<close>

theorem stint_coverage_witness:
  "''A'' \<in> set [''A'', ''B'']
   \<and> stint_lengths_of scenario_stints ''A'' = [3, 2]
   \<and> map LapNumber (rows (scenario_laps ''A'')) = [1, 2, 3, 4, 5]
   \<and> (\<exists>out. prepare_driver_laps scenario_laps [''A'', ''B''] scenario_stints = Inr out
         \<and> (\<forall>src\<in>set (rows (scenario_laps ''A'')).
               \<exists>l\<in>set (rows out). Driver l = ''A'' \<and> LapNumber l = LapNumber src)
         \<and> (\<forall>l\<in>set (rows out). Driver l = ''A'' \<and> 1 \<le> LapNumber l \<longrightarrow>
               (\<exists>k<2. Stint l = Some (int k + 1)))
         \<and> (\<forall>l1\<in>set (rows out). \<forall>l2\<in>set (rows out).
               Driver l1 = ''A'' \<and> Driver l2 = ''A'' \<and> 1 \<le> LapNumber l1
                 \<and> LapNumber l1 \<le> LapNumber l2 \<longrightarrow>
               (\<exists>k1 k2. Stint l1 = Some k1 \<and> Stint l2 = Some k2 \<and> k1 \<le> k2)))"
proof -
  have Ls: "stint_lengths_of scenario_stints ''A'' = [3, 2]"
    by (simp add: scenario_stints_def stint_lengths_of_def)
  have h1: "''A'' \<in> set [''A'', ''B'']" by simp
  have h2: "\<forall>L\<in>set (stint_lengths_of scenario_stints ''A''). 0 < L" by (simp add: Ls)
  have h3: "\<forall>src\<in>set (rows (scenario_laps ''A'')).
              LapNumber src \<le> sum_list (stint_lengths_of scenario_stints ''A'')"
    by (simp add: Ls scenario_laps_def)
  have len: "length (stint_lengths_of scenario_stints ''A'') = 2" by (simp add: Ls)
  have quiet: "\<forall>d'\<in>set [''A'', ''B'']. \<not> iteration_raises scenario_laps scenario_stints d'"
    by (simp add: iteration_raises_def scenario_laps_def)
  note inst = stint_coverage[where d = "''A''" and drivers = "[''A'', ''B'']"
         and stints = scenario_stints and session = scenario_laps, OF h1 h2 h3]
  from inst quiet obtain out where
    out: "prepare_driver_laps scenario_laps [''A'', ''B''] scenario_stints = Inr out" by blast
  from inst out
  have a: "\<forall>src\<in>set (rows (scenario_laps ''A'')).
              \<exists>l\<in>set (rows out). Driver l = ''A'' \<and> LapNumber l = LapNumber src"
    and b: "\<forall>l\<in>set (rows out). Driver l = ''A'' \<and> 1 \<le> LapNumber l \<longrightarrow>
               (\<exists>k<length (stint_lengths_of scenario_stints ''A''). Stint l = Some (int k + 1)
                  \<and> (\<forall>j<length (stint_lengths_of scenario_stints ''A'').
                       (fst (stint_ranges 1 (stint_lengths_of scenario_stints ''A'') ! j)
                          \<le> LapNumber l
                        \<and> LapNumber l
                          \<le> snd (stint_ranges 1 (stint_lengths_of scenario_stints ''A'') ! j))
                       = (j = k)))"
    and c: "\<forall>l1\<in>set (rows out). \<forall>l2\<in>set (rows out).
               Driver l1 = ''A'' \<and> Driver l2 = ''A'' \<and> 1 \<le> LapNumber l1
                 \<and> LapNumber l1 \<le> LapNumber l2 \<longrightarrow>
               (\<exists>k1 k2. Stint l1 = Some k1 \<and> Stint l2 = Some k2 \<and> k1 \<le> k2)"
    by blast+
  from b have b': "\<forall>l\<in>set (rows out). Driver l = ''A'' \<and> 1 \<le> LapNumber l \<longrightarrow>
               (\<exists>k<2. Stint l = Some (int k + 1))"
    unfolding len by blast
  have laps: "map LapNumber (rows (scenario_laps ''A'')) = [1, 2, 3, 4, 5]"
    by (simp add: scenario_laps_def)
  from h1 Ls laps out a b' c show ?thesis by (intro conjI exI[of _ out])
qed

text \<open>
  C2, as the code has it. With an empty \<^verbatim>\<open>drivers\<close> sequence the loop appends nothing
  and the concatenation of no frames raises ValueError: the call returns no frame.
\<close>

theorem empty_drivers_raises:
  "prepare_driver_laps session [] stints = Inl ValueError"
  by (simp add: prepare_driver_laps_def prepare_driver_laps_run_def)

text \<open>
  C2, as the specification words it (no exception, an empty frame), fails on the
  scenario's lap source and stint table with no driver asked for.
\<close>

theorem empty_drivers_counterexample:
  "prepare_driver_laps scenario_laps [] scenario_stints = Inl ValueError
   \<and> map_sum id rows (prepare_driver_laps scenario_laps [] scenario_stints) \<noteq> Inr []"
  by (simp add: prepare_driver_laps_def prepare_driver_laps_run_def)

text \<open>
  C3. In the scenario the call for the drivers A, B returns eight rows: the five laps of A
  in ascending order, laps 1 to 3 in stint 1 and laps 4 and 5 in stint 2, then the three
  laps of B in ascending order, all in stint 1.
\<close>

theorem scenario_result:
  "prepare_driver_laps scenario_laps [''A'', ''B''] scenario_stints =
     Inr \<lparr>has_Stint = True, rows =
         [\<lparr>Driver = ''A'', LapNumber = 1, LapTime = None, Compound = ''SOFT'', Position = 1, Stint = Some 1\<rparr>,
          \<lparr>Driver = ''A'', LapNumber = 2, LapTime = None, Compound = ''SOFT'', Position = 1, Stint = Some 1\<rparr>,
          \<lparr>Driver = ''A'', LapNumber = 3, LapTime = None, Compound = ''SOFT'', Position = 1, Stint = Some 1\<rparr>,
          \<lparr>Driver = ''A'', LapNumber = 4, LapTime = None, Compound = ''SOFT'', Position = 1, Stint = Some 2\<rparr>,
          \<lparr>Driver = ''A'', LapNumber = 5, LapTime = None, Compound = ''SOFT'', Position = 1, Stint = Some 2\<rparr>,
          \<lparr>Driver = ''B'', LapNumber = 1, LapTime = None, Compound = ''HARD'', Position = 2, Stint = Some 1\<rparr>,
          \<lparr>Driver = ''B'', LapNumber = 2, LapTime = None, Compound = ''HARD'', Position = 2, Stint = Some 1\<rparr>,
          \<lparr>Driver = ''B'', LapNumber = 3, LapTime = None, Compound = ''HARD'', Position = 2, Stint = Some 1\<rparr>]\<rparr>"
  by (simp add: prepare_driver_laps_def prepare_driver_laps_run_def driver_iteration_def
      scenario_laps_def scenario_stints_def stint_lengths_of_def set_Driver_def
      loc_set_Stint_def cell_rows_def Let_def)

text \<open>
  C4. The call returns a frame when \<^verbatim>\<open>drivers\<close> is not empty and no iteration raises,
  and only then. The frame it returns has as many rows as the lap source yields for the
  drivers of the sequence together, a driver named twice counted twice.
\<close>

theorem output_length:
  "((\<exists>out. prepare_driver_laps session drivers stints = Inr out)
      = (drivers \<noteq> [] \<and> (\<forall>d\<in>set drivers. \<not> iteration_raises session stints d)))
   \<and> (\<forall>out. prepare_driver_laps session drivers stints = Inr out \<longrightarrow>
         length (rows out) = sum_list (map (\<lambda>driver. length (rows (session driver))) drivers))"
proof (intro conjI allI impI)
  show "(\<exists>out. prepare_driver_laps session drivers stints = Inr out)
      = (drivers \<noteq> [] \<and> (\<forall>d\<in>set drivers. \<not> iteration_raises session stints d))"
    by (rule prepare_returns_iff)
next
  fix out assume "prepare_driver_laps session drivers stints = Inr out"
  from prepare_rows[OF this]
  show "length (rows out) = sum_list (map (\<lambda>driver. length (rows (session driver))) drivers)"
    by (simp add: length_concat_blocks)
qed

theorem output_length_witness:
  "[''A'', ''B''] \<noteq> [] \<and>
   (\<exists>out. prepare_driver_laps scenario_laps [''A'', ''B''] scenario_stints = Inr out
          \<and> length (rows out) = 8)"
proof -
  have ne: "[''A'', ''B''] \<noteq> []" by simp
  have quiet: "\<forall>d\<in>set [''A'', ''B'']. \<not> iteration_raises scenario_laps scenario_stints d"
    by (simp add: iteration_raises_def scenario_laps_def)
  have total: "sum_list (map (\<lambda>driver. length (rows (scenario_laps driver))) [''A'', ''B'']) = 8"
    by (simp add: scenario_laps_def)
  note inst = output_length[of scenario_laps "[''A'', ''B'']" scenario_stints]
  from inst ne quiet obtain out where
    out: "prepare_driver_laps scenario_laps [''A'', ''B''] scenario_stints = Inr out" by blast
  from inst out
  have "length (rows out)
          = sum_list (map (\<lambda>driver. length (rows (scenario_laps driver))) [''A'', ''B''])"
    by blast
  with total have "length (rows out) = 8" by simp
  with ne out show ?thesis by (intro conjI exI[of _ out])
qed

text \<open>
  C5. The call returns a frame when \<^verbatim>\<open>drivers\<close> is not empty and no iteration raises,
  and only then. The frame it returns is the concatenation of one block for each driver,
  in the order of the sequence; the block of a driver has the rows the lap source yields
  for the driver, in the same order, each tagged with the driver and changed in no other
  column than \<^verbatim>\<open>Stint\<close>.
\<close>

theorem order_preserved:
  "((\<exists>out. prepare_driver_laps session drivers stints = Inr out)
      = (drivers \<noteq> [] \<and> (\<forall>d\<in>set drivers. \<not> iteration_raises session stints d)))
   \<and> (\<forall>out. prepare_driver_laps session drivers stints = Inr out \<longrightarrow>
         (\<exists>blocks. rows out = concat blocks
            \<and> list_all2 (\<lambda>driver block.
                  list_all2 (\<lambda>src row. row\<lparr>Stint := Stint src\<rparr> = src\<lparr>Driver := driver\<rparr>)
                    (rows (session driver)) block) drivers blocks))"
proof (intro conjI allI impI)
  show "(\<exists>out. prepare_driver_laps session drivers stints = Inr out)
      = (drivers \<noteq> [] \<and> (\<forall>d\<in>set drivers. \<not> iteration_raises session stints d))"
    by (rule prepare_returns_iff)
next
  fix out assume ret: "prepare_driver_laps session drivers stints = Inr out"
  let ?blocks = "map (driver_block session stints) drivers"
  have row: "(assign_row 1 1 Ls (c\<lparr>Driver := d\<rparr>))\<lparr>Stint := Stint src\<rparr> = src\<lparr>Driver := d\<rparr>"
    if "c = src \<or> c = src\<lparr>Stint := None\<rparr>" for Ls c src d
    using that by (subst assign_row_fields) auto
  have "list_all2 (\<lambda>src row. row\<lparr>Stint := Stint src\<rparr> = src\<lparr>Driver := d\<rparr>)
          (rows (session d)) (driver_block session stints d)" for d
    by (simp add: driver_block_def cell_rows_map list_all2_map2 list_all2_same row)
  then have "list_all2 (\<lambda>driver block.
                 list_all2 (\<lambda>src row. row\<lparr>Stint := Stint src\<rparr> = src\<lparr>Driver := driver\<rparr>)
                   (rows (session driver)) block) drivers ?blocks"
    by (simp add: list_all2_map2 list_all2_same)
  with prepare_rows[OF ret]
  show "\<exists>blocks. rows out = concat blocks
            \<and> list_all2 (\<lambda>driver block.
                  list_all2 (\<lambda>src row. row\<lparr>Stint := Stint src\<rparr> = src\<lparr>Driver := driver\<rparr>)
                    (rows (session driver)) block) drivers blocks"
    by blast
qed

theorem order_preserved_witness:
  "[''B'', ''A''] \<noteq> [] \<and>
   (\<exists>out blocks. prepare_driver_laps scenario_laps [''B'', ''A''] scenario_stints = Inr out
      \<and> rows out = concat blocks
      \<and> length blocks = 2
      \<and> map LapNumber (blocks ! 0) = [1, 2, 3] \<and> map Driver (blocks ! 0) = [''B'', ''B'', ''B'']
      \<and> map LapNumber (blocks ! 1) = [1, 2, 3, 4, 5]
      \<and> map Driver (blocks ! 1) = [''A'', ''A'', ''A'', ''A'', ''A''])"
proof -
  have ne: "[''B'', ''A''] \<noteq> []" by simp
  have quiet: "\<forall>d\<in>set [''B'', ''A'']. \<not> iteration_raises scenario_laps scenario_stints d"
    by (simp add: iteration_raises_def scenario_laps_def)
  let ?P = "\<lambda>driver block.
              list_all2 (\<lambda>src row. row\<lparr>Stint := Stint src\<rparr> = src\<lparr>Driver := driver\<rparr>)
                (rows (scenario_laps driver)) block"
  note inst = order_preserved[of scenario_laps "[''B'', ''A'']" scenario_stints]
  from inst ne quiet obtain out where
    out: "prepare_driver_laps scenario_laps [''B'', ''A''] scenario_stints = Inr out" by blast
  from inst out obtain blocks where
    cat: "rows out = concat blocks" and rel: "list_all2 ?P [''B'', ''A''] blocks" by blast
  from rel obtain b a where blocks: "blocks = [b, a]" and b: "?P ''B'' b" and a: "?P ''A'' a"
    by (auto simp: list_all2_Cons1)
  have same: "map LapNumber block = map LapNumber (rows (scenario_laps driver))
                \<and> map Driver block = map (\<lambda>_. driver) (rows (scenario_laps driver))"
    if "?P driver block" for driver block
  proof -
    let ?src = "rows (scenario_laps driver)"
    from that have len: "length block = length ?src"
      and rws: "\<forall>i<length block. (block ! i)\<lparr>Stint := Stint (?src ! i)\<rparr>
                    = (?src ! i)\<lparr>Driver := driver\<rparr>"
      by (simp_all add: list_all2_conv_all_nth)
    have "LapNumber (block ! i) = LapNumber (?src ! i) \<and> Driver (block ! i) = driver"
      if "i < length block" for i
    proof -
      from rws that have eq: "(block ! i)\<lparr>Stint := Stint (?src ! i)\<rparr>
                    = (?src ! i)\<lparr>Driver := driver\<rparr>" by blast
      from arg_cong[OF eq, of LapNumber] arg_cong[OF eq, of Driver] show ?thesis by simp
    qed
    with len show ?thesis by (auto intro!: nth_equalityI)
  qed
  from same[OF b] same[OF a] blocks
  have "length blocks = 2
      \<and> map LapNumber (blocks ! 0) = [1, 2, 3] \<and> map Driver (blocks ! 0) = [''B'', ''B'', ''B'']
      \<and> map LapNumber (blocks ! 1) = [1, 2, 3, 4, 5]
      \<and> map Driver (blocks ! 1) = [''A'', ''A'', ''A'', ''A'', ''A'']"
    by (simp add: scenario_laps_def)
  with out cat ne show ?thesis by (intro conjI exI[of _ out] exI[of _ blocks]) simp_all
qed

text \<open>
  C6. The stint loop of a driver does its masked assignments with the ranges
  \<open>[start_lap, end_lap]\<close> of \<open>stint_ranges\<close>, one for each stint, in their order. When
  the stint lengths are all positive, these ranges are non-empty, each ends before every
  later one starts, and any two of them have no lap number in common.
\<close>

theorem ranges_disjoint_increasing:
  fixes stints :: "stint_row list" and driver :: string
  defines "Ls \<equiv> stint_lengths_of stints driver"
  defines "R \<equiv> stint_ranges 1 (stint_lengths_of stints driver)"
  assumes "\<forall>L \<in> set Ls. 0 < L"
  shows "length R = length Ls
       \<and> (\<forall>driver_laps. assign_stints 1 1 Ls driver_laps = apply_ranges 1 R driver_laps)
       \<and> (\<forall>j < length R. \<forall>i < j.
           fst (R ! i) \<le> snd (R ! i) \<and> snd (R ! i) < fst (R ! j) \<and> fst (R ! j) \<le> snd (R ! j)
           \<and> {fst (R ! i) .. snd (R ! i)} \<inter> {fst (R ! j) .. snd (R ! j)} = {})"
proof -
  have len: "length R = length Ls" by (simp add: R_def Ls_def length_stint_ranges)
  have tie: "\<forall>driver_laps. assign_stints 1 1 Ls driver_laps = apply_ranges 1 R driver_laps"
    unfolding R_def Ls_def by (simp add: assign_stints_apply_ranges)
  have order: "fst (R ! i) \<le> snd (R ! i) \<and> snd (R ! i) < fst (R ! j) \<and> fst (R ! j) \<le> snd (R ! j)
           \<and> {fst (R ! i) .. snd (R ! i)} \<inter> {fst (R ! j) .. snd (R ! j)} = {}"
    if j: "j < length R" and i: "i < j" for i j
  proof -
    from j have jl: "j < length Ls" by (simp add: len)
    with i have il: "i < length Ls" by simp
    from assms(3) have nonneg: "\<forall>L\<in>set Ls. 0 \<le> L" by auto
    from assms(3) il jl have pos: "0 < Ls ! i" "0 < Ls ! j" by simp_all
    from i have "Suc i \<le> j" by simp
    from prefix_sum_mono[OF nonneg this]
    have mono: "sum_list (take (Suc i) Ls) \<le> sum_list (take j Ls)" .
    have Ri: "R ! i = (1 + sum_list (take i Ls), 1 + sum_list (take (Suc i) Ls) - 1)"
      unfolding R_def Ls_def[symmetric] by (rule stint_ranges_nth[OF il])
    have Rj: "R ! j = (1 + sum_list (take j Ls), 1 + sum_list (take (Suc j) Ls) - 1)"
      unfolding R_def Ls_def[symmetric] by (rule stint_ranges_nth[OF jl])
    have a: "fst (R ! i) \<le> snd (R ! i)" using pos(1) by (simp add: Ri prefix_sum_Suc[OF il])
    have b: "snd (R ! i) < fst (R ! j)" using mono by (simp add: Ri Rj)
    have c: "fst (R ! j) \<le> snd (R ! j)" using pos(2) by (simp add: Rj prefix_sum_Suc[OF jl])
    from b have d: "{fst (R ! i) .. snd (R ! i)} \<inter> {fst (R ! j) .. snd (R ! j)} = {}" by auto
    from a b c d show ?thesis by blast
  qed
  from len tie order show ?thesis by blast
qed

text \<open>
  The scenario's driver A: the ranges are laps 1 to 3 and laps 4 to 5, and the loop on the
  frame of A is the two assignments with these ranges.
\<close>

theorem ranges_disjoint_increasing_witness:
  "stint_lengths_of scenario_stints ''A'' = [3, 2]
   \<and> stint_ranges 1 (stint_lengths_of scenario_stints ''A'') = [(1, 3), (4, 5)]
   \<and> assign_stints 1 1 (stint_lengths_of scenario_stints ''A'') (scenario_laps ''A'')
       = apply_ranges 1 [(1, 3), (4, 5)] (scenario_laps ''A'')
   \<and> snd (stint_ranges 1 (stint_lengths_of scenario_stints ''A'') ! 0)
       < fst (stint_ranges 1 (stint_lengths_of scenario_stints ''A'') ! 1)
   \<and> {fst (stint_ranges 1 (stint_lengths_of scenario_stints ''A'') ! 0) ..
       snd (stint_ranges 1 (stint_lengths_of scenario_stints ''A'') ! 0)}
     \<inter> {fst (stint_ranges 1 (stint_lengths_of scenario_stints ''A'') ! 1) ..
         snd (stint_ranges 1 (stint_lengths_of scenario_stints ''A'') ! 1)} = {}"
proof -
  let ?R = "stint_ranges 1 (stint_lengths_of scenario_stints ''A'')"
  have Ls: "stint_lengths_of scenario_stints ''A'' = [3, 2]"
    by (simp add: scenario_stints_def stint_lengths_of_def)
  have h: "\<forall>L \<in> set (stint_lengths_of scenario_stints ''A''). 0 < L" by (simp add: Ls)
  have R: "?R = [(1, 3), (4, 5)]" by (simp add: Ls)
  then have len: "1 < length ?R" by simp
  note inst = ranges_disjoint_increasing[OF h]
  from inst have tie: "assign_stints 1 1 (stint_lengths_of scenario_stints ''A'') (scenario_laps ''A'')
       = apply_ranges 1 ?R (scenario_laps ''A'')" by blast
  from inst len
  have "\<forall>i<1. snd (?R ! i) < fst (?R ! 1)
          \<and> {fst (?R ! i) .. snd (?R ! i)} \<inter> {fst (?R ! 1) .. snd (?R ! 1)} = {}"
    by blast
  then have "snd (?R ! 0) < fst (?R ! 1)
          \<and> {fst (?R ! 0) .. snd (?R ! 0)} \<inter> {fst (?R ! 1) .. snd (?R ! 1)} = {}"
    by simp
  with Ls R tie show ?thesis by (intro conjI) simp_all
qed

text \<open>
  C7, as the code has it. Take a driver of the call whose stint lengths are not negative
  and sum to \<open>M\<close>. The call returns a frame unless the iteration of some driver raises. In
  the frame it returns, every lap of the driver numbered above \<open>M\<close> is a row with the
  \<^verbatim>\<open>Stint\<close> cell the lap source gave, tagged with the driver, and the driver has no other
  rows numbered above \<open>M\<close>; when the frame of the lap source has no column
  \<^verbatim>\<open>Stint\<close>, these rows have no stint number.
\<close>

theorem tail_keeps_cell:
  fixes session :: "string \<Rightarrow> laps_frame" and stints :: "stint_row list" and d :: string
  defines "M \<equiv> sum_list (stint_lengths_of stints d)"
  assumes d: "d \<in> set drivers"
    and nonneg: "\<forall>L\<in>set (stint_lengths_of stints d). 0 \<le> L"
  shows "((\<exists>out. prepare_driver_laps session drivers stints = Inr out)
            = (\<forall>d'\<in>set drivers. \<not> iteration_raises session stints d'))
       \<and> (\<forall>out. prepare_driver_laps session drivers stints = Inr out \<longrightarrow>
             (\<forall>src\<in>set (cell_rows (session d)).
                 M < LapNumber src \<longrightarrow> src\<lparr>Driver := d\<rparr> \<in> set (rows out))
           \<and> (\<forall>l\<in>set (rows out). Driver l = d \<and> M < LapNumber l \<longrightarrow>
                 (\<exists>src\<in>set (cell_rows (session d)). l = src\<lparr>Driver := d\<rparr>))
           \<and> (\<not> has_Stint (session d) \<longrightarrow>
                 (\<forall>l\<in>set (rows out). Driver l = d \<and> M < LapNumber l \<longrightarrow> Stint l = None)))"
proof (intro conjI allI impI)
  from d have ne: "drivers \<noteq> []" by auto
  with prepare_returns_iff[of session drivers stints]
  show "(\<exists>out. prepare_driver_laps session drivers stints = Inr out)
            = (\<forall>d'\<in>set drivers. \<not> iteration_raises session stints d')" by simp
next
  fix out assume ret: "prepare_driver_laps session drivers stints = Inr out"
  let ?out = "concat (map (driver_block session stints) drivers)"
  let ?Ls = "stint_lengths_of stints d"
  from prepare_rows[OF ret] have out: "rows out = ?out" .
  have keep: "assign_row 1 1 ?Ls (src\<lparr>Driver := d\<rparr>) = src\<lparr>Driver := d\<rparr>"
    if "M < LapNumber src" for src
  proof -
    from that have "1 + sum_list ?Ls \<le> LapNumber (src\<lparr>Driver := d\<rparr>)" by (simp add: M_def)
    from assign_row_above[OF nonneg this] show ?thesis .
  qed
  have kept: "\<exists>src\<in>set (cell_rows (session d)). l = src\<lparr>Driver := d\<rparr>"
    if l: "l \<in> set (rows out)" "Driver l = d \<and> M < LapNumber l" for l
  proof -
    from l have "l \<in> set ?out" and "Driver l = d" by (simp_all add: out)
    from out_rows[OF this] obtain src where
      src: "src \<in> set (cell_rows (session d))" "l = assign_row 1 1 ?Ls (src\<lparr>Driver := d\<rparr>)"
      by blast
    from src(2) l(2) have "M < LapNumber src" by (simp add: assign_row_LapNumber)
    from keep[OF this] src show ?thesis by auto
  qed
  show "\<forall>src\<in>set (cell_rows (session d)).
          M < LapNumber src \<longrightarrow> src\<lparr>Driver := d\<rparr> \<in> set (rows out)"
  proof (intro ballI impI)
    fix src assume src: "src \<in> set (cell_rows (session d))" "M < LapNumber src"
    from d src(1)
    have "assign_row 1 1 (stint_lengths_of stints d) (src\<lparr>Driver := d\<rparr>) \<in> set ?out"
      by (rule src_row_in_out)
    with keep[OF src(2)] show "src\<lparr>Driver := d\<rparr> \<in> set (rows out)" by (simp add: out)
  qed
  show "\<forall>l\<in>set (rows out). Driver l = d \<and> M < LapNumber l \<longrightarrow>
          (\<exists>src\<in>set (cell_rows (session d)). l = src\<lparr>Driver := d\<rparr>)"
    using kept by blast
  show "\<forall>l\<in>set (rows out). Driver l = d \<and> M < LapNumber l \<longrightarrow> Stint l = None"
    if "\<not> has_Stint (session d)"
  proof (intro ballI impI)
    fix l assume "l \<in> set (rows out)" "Driver l = d \<and> M < LapNumber l"
    from kept[OF this] obtain src where
      "src \<in> set (cell_rows (session d))" "l = src\<lparr>Driver := d\<rparr>" by blast
    with cell_rows_no_column[OF that] show "Stint l = None" by simp
  qed
qed

text \<open>
  Driver A with one stint of 3 laps. From the lap source with filled stint cells the laps
  4 and 5 of A keep the 9 of the source; from the scenario's lap source, which has no
  column \<^verbatim>\<open>Stint\<close>, they come out without a stint number.
\<close>

theorem tail_keeps_cell_witness:
  "''A'' \<in> set [''A'', ''B'']
   \<and> stint_lengths_of
         [\<lparr>stint_Driver = ''A'', stint_Compound = ''SOFT'', StintLength = 3\<rparr>] ''A'' = [3]
   \<and> (\<exists>out. prepare_driver_laps filled_laps [''A'', ''B'']
                [\<lparr>stint_Driver = ''A'', stint_Compound = ''SOFT'', StintLength = 3\<rparr>] = Inr out
         \<and> \<lparr>Driver = ''A'', LapNumber = 4, LapTime = None, Compound = ''SOFT'',
              Position = 1, Stint = Some 9\<rparr> \<in> set (rows out)
         \<and> \<lparr>Driver = ''A'', LapNumber = 5, LapTime = None, Compound = ''SOFT'',
              Position = 1, Stint = Some 9\<rparr> \<in> set (rows out))
   \<and> (\<exists>out. prepare_driver_laps scenario_laps [''A'', ''B'']
                [\<lparr>stint_Driver = ''A'', stint_Compound = ''SOFT'', StintLength = 3\<rparr>] = Inr out
         \<and> \<lparr>Driver = ''A'', LapNumber = 4, LapTime = None, Compound = ''SOFT'',
              Position = 1, Stint = None\<rparr> \<in> set (rows out)
         \<and> \<lparr>Driver = ''A'', LapNumber = 5, LapTime = None, Compound = ''SOFT'',
              Position = 1, Stint = None\<rparr> \<in> set (rows out)
         \<and> (\<forall>l\<in>set (rows out). Driver l = ''A'' \<and> 3 < LapNumber l \<longrightarrow> Stint l = None))"
proof -
  let ?stints = "[\<lparr>stint_Driver = ''A'', stint_Compound = ''SOFT'', StintLength = 3\<rparr>]"
  have Ls: "stint_lengths_of ?stints ''A'' = [3]" by (simp add: stint_lengths_of_def)
  have h1: "''A'' \<in> set [''A'', ''B'']" by simp
  have h2: "\<forall>L\<in>set (stint_lengths_of ?stints ''A''). 0 \<le> L" by (simp add: Ls)
  have filled: "\<exists>out. prepare_driver_laps filled_laps [''A'', ''B''] ?stints = Inr out
         \<and> \<lparr>Driver = ''A'', LapNumber = 4, LapTime = None, Compound = ''SOFT'',
              Position = 1, Stint = Some 9\<rparr> \<in> set (rows out)
         \<and> \<lparr>Driver = ''A'', LapNumber = 5, LapTime = None, Compound = ''SOFT'',
              Position = 1, Stint = Some 9\<rparr> \<in> set (rows out)"
  proof -
    have quiet: "\<forall>d'\<in>set [''A'', ''B'']. \<not> iteration_raises filled_laps ?stints d'"
      by (simp add: iteration_raises_def filled_laps_def)
    note inst = tail_keeps_cell[where d = "''A''" and drivers = "[''A'', ''B'']"
         and stints = ?stints and session = filled_laps, OF h1 h2]
    from inst quiet obtain out where
      out: "prepare_driver_laps filled_laps [''A'', ''B''] ?stints = Inr out" by blast
    from inst out
    have "\<forall>src\<in>set (cell_rows (filled_laps ''A'')).
            sum_list (stint_lengths_of ?stints ''A'') < LapNumber src \<longrightarrow>
            src\<lparr>Driver := ''A''\<rparr> \<in> set (rows out)" by blast
    then have "\<lparr>Driver = ''A'', LapNumber = 4, LapTime = None, Compound = ''SOFT'',
              Position = 1, Stint = Some 9\<rparr> \<in> set (rows out)"
      and "\<lparr>Driver = ''A'', LapNumber = 5, LapTime = None, Compound = ''SOFT'',
              Position = 1, Stint = Some 9\<rparr> \<in> set (rows out)"
      by (simp_all add: Ls filled_laps_def cell_rows_def)
    with out show ?thesis by (intro conjI exI[of _ out])
  qed
  have bare: "\<exists>out. prepare_driver_laps scenario_laps [''A'', ''B''] ?stints = Inr out
         \<and> \<lparr>Driver = ''A'', LapNumber = 4, LapTime = None, Compound = ''SOFT'',
              Position = 1, Stint = None\<rparr> \<in> set (rows out)
         \<and> \<lparr>Driver = ''A'', LapNumber = 5, LapTime = None, Compound = ''SOFT'',
              Position = 1, Stint = None\<rparr> \<in> set (rows out)
         \<and> (\<forall>l\<in>set (rows out). Driver l = ''A'' \<and> 3 < LapNumber l \<longrightarrow> Stint l = None)"
  proof -
    have quiet: "\<forall>d'\<in>set [''A'', ''B'']. \<not> iteration_raises scenario_laps ?stints d'"
      by (simp add: iteration_raises_def scenario_laps_def)
    have col: "\<not> has_Stint (scenario_laps ''A'')" by (simp add: scenario_laps_def)
    note inst = tail_keeps_cell[where d = "''A''" and drivers = "[''A'', ''B'']"
         and stints = ?stints and session = scenario_laps, OF h1 h2]
    from inst quiet obtain out where
      out: "prepare_driver_laps scenario_laps [''A'', ''B''] ?stints = Inr out" by blast
    from inst out
    have a: "\<forall>src\<in>set (cell_rows (scenario_laps ''A'')).
            sum_list (stint_lengths_of ?stints ''A'') < LapNumber src \<longrightarrow>
            src\<lparr>Driver := ''A''\<rparr> \<in> set (rows out)" by blast
    from inst out col
    have b: "\<forall>l\<in>set (rows out). Driver l = ''A''
               \<and> sum_list (stint_lengths_of ?stints ''A'') < LapNumber l \<longrightarrow> Stint l = None"
      by blast
    from a have "\<lparr>Driver = ''A'', LapNumber = 4, LapTime = None, Compound = ''SOFT'',
              Position = 1, Stint = None\<rparr> \<in> set (rows out)"
      and "\<lparr>Driver = ''A'', LapNumber = 5, LapTime = None, Compound = ''SOFT'',
              Position = 1, Stint = None\<rparr> \<in> set (rows out)"
      by (simp_all add: Ls scenario_laps_def cell_rows_def)
    moreover from b
    have "\<forall>l\<in>set (rows out). Driver l = ''A'' \<and> 3 < LapNumber l \<longrightarrow> Stint l = None"
      by (simp add: Ls)
    ultimately show ?thesis using out by (intro conjI exI[of _ out])
  qed
  from h1 Ls filled bare show ?thesis by (intro conjI)
qed

text \<open>
  C7, as the specification words it, fails in three ways. From the lap source with filled
  stint cells and one stint of 3 laps, the laps 4 and 5 of A keep the stint number 9 of the
  source. With the stint lengths 5, -3 and 2, which sum to 4, lap 5 of A is in stint 1.
  And with a driver Z first who has a stint but a frame with no rows and no column
  \<^verbatim>\<open>Stint\<close>, the call raises ValueError.
\<close>

theorem unset_tail_counterexample:
  "prepare_driver_laps filled_laps [''A'']
       [\<lparr>stint_Driver = ''A'', stint_Compound = ''SOFT'', StintLength = 3\<rparr>] =
     Inr \<lparr>has_Stint = True, rows =
         [\<lparr>Driver = ''A'', LapNumber = 1, LapTime = None, Compound = ''SOFT'', Position = 1, Stint = Some 1\<rparr>,
          \<lparr>Driver = ''A'', LapNumber = 2, LapTime = None, Compound = ''SOFT'', Position = 1, Stint = Some 1\<rparr>,
          \<lparr>Driver = ''A'', LapNumber = 3, LapTime = None, Compound = ''SOFT'', Position = 1, Stint = Some 1\<rparr>,
          \<lparr>Driver = ''A'', LapNumber = 4, LapTime = None, Compound = ''SOFT'', Position = 1, Stint = Some 9\<rparr>,
          \<lparr>Driver = ''A'', LapNumber = 5, LapTime = None, Compound = ''SOFT'', Position = 1, Stint = Some 9\<rparr>]\<rparr>
   \<and> prepare_driver_laps scenario_laps [''A'']
       [\<lparr>stint_Driver = ''A'', stint_Compound = ''SOFT'', StintLength = 5\<rparr>,
        \<lparr>stint_Driver = ''A'', stint_Compound = ''SOFT'', StintLength = - 3\<rparr>,
        \<lparr>stint_Driver = ''A'', stint_Compound = ''SOFT'', StintLength = 2\<rparr>] =
     Inr \<lparr>has_Stint = True, rows =
         [\<lparr>Driver = ''A'', LapNumber = 1, LapTime = None, Compound = ''SOFT'', Position = 1, Stint = Some 1\<rparr>,
          \<lparr>Driver = ''A'', LapNumber = 2, LapTime = None, Compound = ''SOFT'', Position = 1, Stint = Some 1\<rparr>,
          \<lparr>Driver = ''A'', LapNumber = 3, LapTime = None, Compound = ''SOFT'', Position = 1, Stint = Some 3\<rparr>,
          \<lparr>Driver = ''A'', LapNumber = 4, LapTime = None, Compound = ''SOFT'', Position = 1, Stint = Some 3\<rparr>,
          \<lparr>Driver = ''A'', LapNumber = 5, LapTime = None, Compound = ''SOFT'', Position = 1, Stint = Some 1\<rparr>]\<rparr>
   \<and> prepare_driver_laps scenario_laps [''Z'', ''A'']
       [\<lparr>stint_Driver = ''Z'', stint_Compound = ''SOFT'', StintLength = 2\<rparr>,
        \<lparr>stint_Driver = ''A'', stint_Compound = ''SOFT'', StintLength = 3\<rparr>] = Inl ValueError"
  by (simp add: prepare_driver_laps_def prepare_driver_laps_run_def driver_iteration_def
      scenario_laps_def filled_laps_def stint_lengths_of_def set_Driver_def
      loc_set_Stint_def cell_rows_def Let_def)

text \<open>
  C8, as the code has it. Take a driver of the call with no row in \<^verbatim>\<open>stints\<close>. The
  call returns a frame unless the iteration of some driver raises. In the frame it
  returns, every lap of the driver is a row with the \<^verbatim>\<open>Stint\<close> cell the lap source
  gave, tagged with the driver, and the driver has no other rows; when the frame of the
  lap source has no column \<^verbatim>\<open>Stint\<close>, no row of the driver has a stint number.
\<close>

theorem no_stint_records:
  assumes d: "d \<in> set drivers"
    and none: "\<forall>s\<in>set stints. stint_Driver s \<noteq> d"
  shows "((\<exists>out. prepare_driver_laps session drivers stints = Inr out)
            = (\<forall>d'\<in>set drivers. \<not> iteration_raises session stints d'))
       \<and> (\<forall>out. prepare_driver_laps session drivers stints = Inr out \<longrightarrow>
             (\<forall>src\<in>set (cell_rows (session d)). src\<lparr>Driver := d\<rparr> \<in> set (rows out))
           \<and> (\<forall>l\<in>set (rows out). Driver l = d \<longrightarrow>
                 (\<exists>src\<in>set (cell_rows (session d)). l = src\<lparr>Driver := d\<rparr>))
           \<and> (\<not> has_Stint (session d) \<longrightarrow>
                 (\<forall>l\<in>set (rows out). Driver l = d \<longrightarrow> Stint l = None)))"
proof (intro conjI allI impI)
  from d have ne: "drivers \<noteq> []" by auto
  with prepare_returns_iff[of session drivers stints]
  show "(\<exists>out. prepare_driver_laps session drivers stints = Inr out)
            = (\<forall>d'\<in>set drivers. \<not> iteration_raises session stints d')" by simp
next
  fix out assume ret: "prepare_driver_laps session drivers stints = Inr out"
  let ?out = "concat (map (driver_block session stints) drivers)"
  from prepare_rows[OF ret] have out: "rows out = ?out" .
  from none have Ls: "stint_lengths_of stints d = []"
    by (simp add: stint_lengths_of_def filter_empty_conv)
  have kept: "\<exists>src\<in>set (cell_rows (session d)). l = src\<lparr>Driver := d\<rparr>"
    if l: "l \<in> set (rows out)" "Driver l = d" for l
  proof -
    from l have "l \<in> set ?out" and "Driver l = d" by (simp_all add: out)
    from out_rows[OF this] show ?thesis by (simp add: Ls)
  qed
  show "\<forall>src\<in>set (cell_rows (session d)). src\<lparr>Driver := d\<rparr> \<in> set (rows out)"
  proof
    fix src assume "src \<in> set (cell_rows (session d))"
    with d have "assign_row 1 1 (stint_lengths_of stints d) (src\<lparr>Driver := d\<rparr>) \<in> set ?out"
      by (rule src_row_in_out)
    then show "src\<lparr>Driver := d\<rparr> \<in> set (rows out)" by (simp add: Ls out)
  qed
  show "\<forall>l\<in>set (rows out). Driver l = d \<longrightarrow>
          (\<exists>src\<in>set (cell_rows (session d)). l = src\<lparr>Driver := d\<rparr>)"
    using kept by blast
  show "\<forall>l\<in>set (rows out). Driver l = d \<longrightarrow> Stint l = None"
    if "\<not> has_Stint (session d)"
  proof (intro ballI impI)
    fix l assume "l \<in> set (rows out)" "Driver l = d"
    from kept[OF this] obtain src where
      "src \<in> set (cell_rows (session d))" "l = src\<lparr>Driver := d\<rparr>" by blast
    with cell_rows_no_column[OF that] show "Stint l = None" by simp
  qed
qed

text \<open>
  Stint rows for driver A only. From the lap source with filled stint cells the laps of B
  keep the 9 of the source; from the scenario's lap source they come out without a stint
  number.
\<close>

theorem no_stint_records_witness:
  "''B'' \<in> set [''A'', ''B'']
   \<and> map stint_Driver
         [\<lparr>stint_Driver = ''A'', stint_Compound = ''SOFT'', StintLength = 5\<rparr>] = [''A'']
   \<and> (\<exists>out. prepare_driver_laps filled_laps [''A'', ''B'']
                [\<lparr>stint_Driver = ''A'', stint_Compound = ''SOFT'', StintLength = 5\<rparr>] = Inr out
         \<and> \<lparr>Driver = ''B'', LapNumber = 1, LapTime = None, Compound = ''HARD'',
              Position = 2, Stint = Some 9\<rparr> \<in> set (rows out))
   \<and> (\<exists>out. prepare_driver_laps scenario_laps [''A'', ''B'']
                [\<lparr>stint_Driver = ''A'', stint_Compound = ''SOFT'', StintLength = 5\<rparr>] = Inr out
         \<and> \<lparr>Driver = ''B'', LapNumber = 1, LapTime = None, Compound = ''HARD'',
              Position = 2, Stint = None\<rparr> \<in> set (rows out)
         \<and> (\<forall>l\<in>set (rows out). Driver l = ''B'' \<longrightarrow> Stint l = None))"
proof -
  let ?stints = "[\<lparr>stint_Driver = ''A'', stint_Compound = ''SOFT'', StintLength = 5\<rparr>]"
  have h1: "''B'' \<in> set [''A'', ''B'']" by simp
  have h2: "\<forall>s\<in>set ?stints. stint_Driver s \<noteq> ''B''" by simp
  have rws: "map stint_Driver ?stints = [''A'']" by simp
  have filled: "\<exists>out. prepare_driver_laps filled_laps [''A'', ''B''] ?stints = Inr out
         \<and> \<lparr>Driver = ''B'', LapNumber = 1, LapTime = None, Compound = ''HARD'',
              Position = 2, Stint = Some 9\<rparr> \<in> set (rows out)"
  proof -
    have quiet: "\<forall>d'\<in>set [''A'', ''B'']. \<not> iteration_raises filled_laps ?stints d'"
      by (simp add: iteration_raises_def filled_laps_def)
    note inst = no_stint_records[where d = "''B''" and drivers = "[''A'', ''B'']"
         and stints = ?stints and session = filled_laps, OF h1 h2]
    from inst quiet obtain out where
      out: "prepare_driver_laps filled_laps [''A'', ''B''] ?stints = Inr out" by blast
    from inst out
    have "\<forall>src\<in>set (cell_rows (filled_laps ''B'')). src\<lparr>Driver := ''B''\<rparr> \<in> set (rows out)"
      by blast
    then have "\<lparr>Driver = ''B'', LapNumber = 1, LapTime = None, Compound = ''HARD'',
              Position = 2, Stint = Some 9\<rparr> \<in> set (rows out)"
      by (simp add: filled_laps_def cell_rows_def)
    with out show ?thesis by (intro conjI exI[of _ out])
  qed
  have bare: "\<exists>out. prepare_driver_laps scenario_laps [''A'', ''B''] ?stints = Inr out
         \<and> \<lparr>Driver = ''B'', LapNumber = 1, LapTime = None, Compound = ''HARD'',
              Position = 2, Stint = None\<rparr> \<in> set (rows out)
         \<and> (\<forall>l\<in>set (rows out). Driver l = ''B'' \<longrightarrow> Stint l = None)"
  proof -
    have quiet: "\<forall>d'\<in>set [''A'', ''B'']. \<not> iteration_raises scenario_laps ?stints d'"
      by (simp add: iteration_raises_def scenario_laps_def)
    have col: "\<not> has_Stint (scenario_laps ''B'')" by (simp add: scenario_laps_def)
    note inst = no_stint_records[where d = "''B''" and drivers = "[''A'', ''B'']"
         and stints = ?stints and session = scenario_laps, OF h1 h2]
    from inst quiet obtain out where
      out: "prepare_driver_laps scenario_laps [''A'', ''B''] ?stints = Inr out" by blast
    from inst out
    have a: "\<forall>src\<in>set (cell_rows (scenario_laps ''B'')). src\<lparr>Driver := ''B''\<rparr> \<in> set (rows out)"
      by blast
    from inst out col
    have b: "\<forall>l\<in>set (rows out). Driver l = ''B'' \<longrightarrow> Stint l = None" by blast
    from a have "\<lparr>Driver = ''B'', LapNumber = 1, LapTime = None, Compound = ''HARD'',
              Position = 2, Stint = None\<rparr> \<in> set (rows out)"
      by (simp add: scenario_laps_def cell_rows_def)
    with out b show ?thesis by (intro conjI exI[of _ out])
  qed
  from h1 rws filled bare show ?thesis by (intro conjI)
qed

text \<open>
  C8, as the specification words it, fails in two ways. From the lap source with filled
  stint cells, the laps of B, a driver with no stint row, keep the stint number 9 of the
  source. And with a driver Z first who has a stint but a frame with no rows and no column
  \<^verbatim>\<open>Stint\<close>, the call raises ValueError.
\<close>

theorem no_stint_records_counterexample:
  "prepare_driver_laps filled_laps [''B'']
       [\<lparr>stint_Driver = ''A'', stint_Compound = ''SOFT'', StintLength = 3\<rparr>] =
     Inr \<lparr>has_Stint = True, rows =
         [\<lparr>Driver = ''B'', LapNumber = 1, LapTime = None, Compound = ''HARD'', Position = 2, Stint = Some 9\<rparr>,
          \<lparr>Driver = ''B'', LapNumber = 2, LapTime = None, Compound = ''HARD'', Position = 2, Stint = Some 9\<rparr>,
          \<lparr>Driver = ''B'', LapNumber = 3, LapTime = None, Compound = ''HARD'', Position = 2, Stint = Some 9\<rparr>]\<rparr>
   \<and> prepare_driver_laps scenario_laps [''Z'', ''B'']
       [\<lparr>stint_Driver = ''Z'', stint_Compound = ''SOFT'', StintLength = 2\<rparr>] = Inl ValueError"
  by (simp add: prepare_driver_laps_def prepare_driver_laps_run_def driver_iteration_def
      scenario_laps_def filled_laps_def stint_lengths_of_def set_Driver_def
      loc_set_Stint_def cell_rows_def Let_def)

text \<open>
  C9. Whatever the inputs, and whether the call returns or raises, the \<^verbatim>\<open>stints\<close>
  frame is after the call what it was before.
\<close>

theorem stints_unchanged:
  "stints_frame (fst (prepare_driver_laps_run session drivers stints)) = stints"
proof -
  let ?st = "\<lparr>stints_frame = stints, driver_laps_list = []\<rparr>"
  obtain st res where loop: "drivers_loop session drivers ?st = (st, res)"
    by (cases "drivers_loop session drivers ?st")
  from drivers_loop_stints[of session drivers ?st] loop have "stints_frame st = stints" by simp
  with loop show ?thesis
    by (cases res) (simp_all add: prepare_driver_laps_run_def)
qed

section \<open>Properties of plot\_lap\_time\_distributions\<close>

text \<open>
  C10. When the caller's frame has no column \<^verbatim>\<open>LapTime (s)\<close> and its column
  \<^verbatim>\<open>LapTime\<close> holds durations, the frame has after the call one more column, the last,
  named \<^verbatim>\<open>LapTime (s)\<close>, with the total seconds of each lap time, and its other columns
  are as before. When the column \<^verbatim>\<open>LapTime (s)\<close> is there on entry, the frame is after
  the call what it was before.
\<close>

theorem lap_time_seconds_added:
  "(''LapTime (s)'' \<notin> set (columns driver_laps)
      \<and> map_of driver_laps ''LapTime'' = Some (Timedelta xs) \<longrightarrow>
      fst (plot_lap_time_distributions total_seconds render driver_laps)
        = driver_laps @ [(''LapTime (s)'', Float64 (map (map_option total_seconds) xs))])
   \<and> (''LapTime (s)'' \<in> set (columns driver_laps) \<longrightarrow>
      fst (plot_lap_time_distributions total_seconds render driver_laps) = driver_laps)"
  by (simp add: plot_lap_time_distributions_def getitem_def dt_total_seconds_def setitem_new Let_def)

text \<open>
  Two frames, one without and one with the column; a second is taken to be
  1000000000 nanoseconds, rounded down.
\<close>

theorem lap_time_seconds_added_witness:
  "fst (plot_lap_time_distributions (\<lambda>ns. ns div 1000000000) (\<lambda>df. Inr ())
          [(''Driver'', Object [''A'', ''A'']), (''LapTime'', Timedelta [Some 91000000000, None])])
     = [(''Driver'', Object [''A'', ''A'']), (''LapTime'', Timedelta [Some 91000000000, None]),
        (''LapTime (s)'', Float64 [Some 91, None])]
   \<and> fst (plot_lap_time_distributions (\<lambda>ns. ns div 1000000000) (\<lambda>df. Inr ())
          [(''LapTime'', Timedelta [Some 91000000000]), (''LapTime (s)'', Float64 [Some 7])])
     = [(''LapTime'', Timedelta [Some 91000000000]), (''LapTime (s)'', Float64 [Some 7])]"
proof -
  let ?ts = "\<lambda>ns::int. ns div 1000000000"
  let ?render = "\<lambda>df::int dataframe. (Inr () :: error + unit)"
  let ?a = "[(''Driver'', Object [''A'', ''A'']),
             (''LapTime'', Timedelta [Some 91000000000, None])] :: int dataframe"
  let ?b = "[(''LapTime'', Timedelta [Some 91000000000]),
             (''LapTime (s)'', Float64 [Some 7])] :: int dataframe"
  have a: "''LapTime (s)'' \<notin> set (columns ?a)
             \<and> map_of ?a ''LapTime'' = Some (Timedelta [Some 91000000000, None])"
    by (simp add: columns_def)
  have b: "''LapTime (s)'' \<in> set (columns ?b)" by (simp add: columns_def)
  from lap_time_seconds_added[of ?a "[Some 91000000000, None]" ?ts ?render] a
  have 1: "fst (plot_lap_time_distributions ?ts ?render ?a)
        = ?a @ [(''LapTime (s)'', Float64 (map (map_option ?ts) [Some 91000000000, None]))]"
    by blast
  from lap_time_seconds_added[of ?b "[]" ?ts ?render] b
  have 2: "fst (plot_lap_time_distributions ?ts ?render ?b) = ?b" by blast
  from 1 2 show ?thesis by simp
qed

end
